theory Spec2Isabelle
  imports Main "HOL-Library.Sublist"
begin

section \<open>Python strings\<close>

text \<open>
  A Python \<open>str\<close> is modelled as a HOL \<open>string\<close>: a list of characters, one \<open>char\<close> per
  code point, for the code points below 256. An exception is represented by its message,
  \<open>str(e)\<close>.
\<close>

type_synonym exn = string

definition nl :: string where
  "nl = [CHR 0x0A]"

text \<open>\<open>'='*70\<close>\<close>

definition rule70 :: string where
  "rule70 = replicate 70 CHR ''=''"

text \<open>
  \<open>str.isspace\<close> on the code points below 256: TAB, LF, VT, FF, CR, the four
  separators FS, GS, RS, US, the space, NEL and the no-break space.
\<close>

definition py_isspace :: "char \<Rightarrow> bool" where
  "py_isspace c \<longleftrightarrow>
     c \<in> set [CHR 0x09, CHR 0x0A, CHR 0x0B, CHR 0x0C, CHR 0x0D, CHR 0x1C, CHR 0x1D,
              CHR 0x1E, CHR 0x1F, CHR 0x20, CHR 0x85, CHR 0xA0]"

text \<open>\<open>s.strip()\<close>\<close>

definition py_strip :: "string \<Rightarrow> string" where
  "py_strip s = rev (dropWhile py_isspace (rev (dropWhile py_isspace s)))"

text \<open>\<open>s.startswith(p)\<close>\<close>

definition startswith :: "string \<Rightarrow> string \<Rightarrow> bool" where
  "startswith s p \<longleftrightarrow> prefix p s"

text \<open>
  The first occurrence of \<open>sep\<close> in \<open>s\<close>, scanning from the left: the text before it and
  the text after it. \<open>None\<close> when \<open>sep\<close> does not occur.
\<close>

fun split_at :: "string \<Rightarrow> string \<Rightarrow> (string \<times> string) option" where
  "split_at sep [] = (if sep = [] then Some ([], []) else None)"
| "split_at sep (c # cs) =
     (if prefix sep (c # cs) then Some ([], drop (length sep) (c # cs))
      else (case split_at sep cs of
              None \<Rightarrow> None
            | Some (b, a) \<Rightarrow> Some (c # b, a)))"

text \<open>\<open>sub in s\<close>\<close>

definition py_in :: "string \<Rightarrow> string \<Rightarrow> bool" where
  "py_in sub s \<longleftrightarrow> split_at sub s \<noteq> None"

lemma split_at_shorter:
  "split_at sep s = Some (b, a) \<Longrightarrow> sep \<noteq> [] \<Longrightarrow> length a < length s"
proof (induction s arbitrary: b a)
  case Nil
  then show ?case by simp
next
  case (Cons c cs)
  show ?case
  proof (cases "prefix sep (c # cs)")
    case True
    with Cons.prems show ?thesis by auto
  next
    case False
    with Cons.prems obtain b' where "split_at sep cs = Some (b', a)"
      by (auto split: option.splits)
    with Cons.IH Cons.prems(2) show ?thesis by fastforce
  qed
qed

text \<open>
  \<open>s.split(sep)\<close> for a non-empty separator. Python raises \<open>ValueError\<close> on the empty
  separator; every call of the program passes a non-empty literal, and the model returns
  the empty list there, which no \<open>split\<close> of Python does.
\<close>

function py_split :: "string \<Rightarrow> string \<Rightarrow> string list" where
  "py_split sep s =
     (if sep = [] then []
      else (case split_at sep s of
              None \<Rightarrow> [s]
            | Some (b, a) \<Rightarrow> b # py_split sep a))"
  by pat_completeness auto
termination
  by (relation "measure (\<lambda>(sep, s). length s)") (auto dest: split_at_shorter)

declare py_split.simps [simp del]

text \<open>
  \<open>s.replace(old, new)\<close> for a non-empty \<open>old\<close>: every occurrence, left to right, without
  overlap. (With an empty \<open>old\<close> Python inserts \<open>new\<close> around every character; the
  program never does that, and the model returns \<open>s\<close> unchanged there.)
\<close>

function py_replace :: "string \<Rightarrow> string \<Rightarrow> string \<Rightarrow> string" where
  "py_replace old new s =
     (if old = [] then s
      else (case split_at old s of
              None \<Rightarrow> s
            | Some (b, a) \<Rightarrow> b @ new @ py_replace old new a))"
  by pat_completeness auto
termination
  by (relation "measure (\<lambda>(old, new, s). length s)") (auto dest: split_at_shorter)

declare py_replace.simps [simp del]

text \<open>\<open>sep.join(xs)\<close>\<close>

fun py_join :: "string \<Rightarrow> string list \<Rightarrow> string" where
  "py_join sep [] = []"
| "py_join sep [x] = x"
| "py_join sep (x # y # ys) = x @ sep @ py_join sep (y # ys)"

text \<open>\<open>xs[i]\<close> for \<open>i \<ge> 0\<close>; \<open>None\<close> is the \<open>IndexError\<close>.\<close>

fun py_index :: "'a list \<Rightarrow> nat \<Rightarrow> 'a option" where
  "py_index [] i = None"
| "py_index (x # xs) 0 = Some x"
| "py_index (x # xs) (Suc i) = py_index xs i"

text \<open>\<open>str(n)\<close> for an integer.\<close>

definition digit_char :: "nat \<Rightarrow> char" where
  "digit_char d = ''0123456789'' ! (d mod 10)"

fun str_nat :: "nat \<Rightarrow> string" where
  "str_nat n = (if n < 10 then [digit_char n] else str_nat (n div 10) @ [digit_char n])"

declare str_nat.simps [simp del]

definition str_int :: "int \<Rightarrow> string" where
  "str_int i = (if i < 0 then CHR ''-'' # str_nat (nat (- i)) else str_nat (nat i))"

section \<open>Title extraction (finalizer)\<close>

text \<open>
  \<^verbatim>\<open>
  title_lines = draft_report.split('\n')
  title = "Research Report"
  for line in title_lines[:10]:
      line = line.strip()
      if line and not line.startswith('=') and not line.startswith('#') and len(line) > 10:
          title = line[:100]
          break
  \<close>
\<close>

definition title_ok :: "string \<Rightarrow> bool" where
  "title_ok line \<longleftrightarrow>
     line \<noteq> [] \<and> \<not> startswith line ''='' \<and> \<not> startswith line ''#'' \<and> length line > 10"

fun title_loop :: "string list \<Rightarrow> string" where
  "title_loop [] = ''Research Report''"
| "title_loop (l # ls) =
     (let line = py_strip l in
      if title_ok line then take 100 line else title_loop ls)"

definition extract_title :: "string \<Rightarrow> string" where
  "extract_title draft_report = title_loop (take 10 (py_split nl draft_report))"

section \<open>Data model\<close>

text \<open>
  \<open>AgentState\<close>. A key that is absent from the LangGraph state is read by every stage
  through \<open>state.get(key, default)\<close>; the record holds that default in its place. The
  research brief is the one field whose absence the caller tests, so it is an option.
  The field \<open>notes\<close> is written \<open>notes'\<close>.
\<close>

datatype message = HumanMessage string | AIMessage string

fun msg_type :: "message \<Rightarrow> string" where
  "msg_type (HumanMessage c) = ''human''"
| "msg_type (AIMessage c) = ''ai''"

fun msg_content :: "message \<Rightarrow> string" where
  "msg_content (HumanMessage c) = c"
| "msg_content (AIMessage c) = c"

record agent_state =
  messages :: "message list"
  research_brief :: "string option"
  search_queries :: "string list"
  key_topics :: "string list"
  raw_notes :: "string list"
  notes' :: "string list"
  draft_report :: string
  critique_feedback :: string
  final_report :: string
  iteration_count :: int
  notion_page_url :: string

text \<open>
  The state a run starts from: \<open>workflow.invoke({"messages": [...], "iteration_count": 0})\<close>.
\<close>

definition initial_state :: "message list \<Rightarrow> agent_state" where
  "initial_state msgs =
     \<lparr>messages = msgs, research_brief = None, search_queries = [], key_topics = [],
      raw_notes = [], notes' = [], draft_report = [], critique_feedback = [],
      final_report = [], iteration_count = 0, notion_page_url = []\<rparr>"

text \<open>\<open>state.get("research_brief", "")\<close>\<close>

definition brief_of :: "agent_state \<Rightarrow> string" where
  "brief_of s = (case research_brief s of None \<Rightarrow> [] | Some b \<Rightarrow> b)"

text \<open>The four pydantic schemas, and a value of one of them.\<close>

datatype schema = ClarifyWithUserS | ResearchQuestionS | ResearchPlanS | CritiqueS

datatype structured =
    ClarifyWithUser (need_clarification: bool) (question: string) (verification: string)
  | ResearchQuestion string string
  | ResearchPlan "string list" "string list" string
  | Critique (needs_revision: bool) (critique_reasoning: string)
      (specific_issues: "string list") (improvements: "string list")

text \<open>
  The nodes of the graph; \<open>END\<close> is LangGraph's terminal node.
\<close>

datatype node =
  Clarify | Planner | Researcher | Synthesis | Writer | Critic | Finalizer | END

section \<open>External collaborators\<close>

text \<open>
  \<open>model.generate_content(prompt)\<close> either raises or returns a response, whose \<open>.text\<close>
  either raises or is the generated text.
\<close>

datatype gen_result = Raises exn | Response "exn + string"

text \<open>
  One result of \<open>search_tool.invoke\<close>: a dict, read with
  \<open>result.get('content', '')\<close> and \<open>result.get('url', '')\<close>, or any other value, read with
  \<open>str(result)\<close>. The call raises, returns a list of results, or returns something else.
\<close>

datatype search_item = DictResult string string | OtherResult string

datatype search_out = SearchRaises exn | SearchList "search_item list" | SearchOther string

text \<open>The arguments of \<open>create_research_page\<close> and the dict it returns.\<close>

record archive_args =
  arg_title :: string
  arg_research_brief :: string
  arg_report_content :: string
  arg_sources_count :: nat
  arg_key_topics :: "string list"

datatype page_result = PageCreated string string string | PageFailed string

text \<open>
  Everything the program does not decide itself:
  \<^item> \<open>generate_content k p\<close>: the text-generation service at its \<open>k\<close>-th call of the run,
    with prompt \<open>p\<close>;
  \<^item> \<open>loads_*\<close>: \<open>schema_class(**json.loads(text))\<close> for each schema, \<open>None\<close> when
    \<open>json.loads\<close> or the pydantic validation raises;
  \<^item> \<open>search_invoke i q\<close>: the search service on the \<open>i\<close>-th query \<open>q\<close>;
  \<^item> \<open>now\<close>: \<open>datetime.now().strftime('%Y-%m-%d %H:%M:%S')\<close> in the finalizer;
  \<^item> \<open>set_rank\<close>: the position Python's hash table gives each string when a set is
    iterated;
  \<^item> \<open>notion_import\<close>: the exception \<open>from notion_manager import create_research_page\<close>
    raises, if any;
  \<^item> \<open>notion_create\<close>: the body of \<open>create_research_page\<close> up to and including
    \<open>notion.pages.create\<close>: the page the service returns, or the exception raised on the way.
\<close>

record env =
  generate_content :: "nat \<Rightarrow> string \<Rightarrow> gen_result"
  loads_clarify :: "string \<Rightarrow> (bool \<times> string \<times> string) option"
  loads_question :: "string \<Rightarrow> (string \<times> string) option"
  loads_plan :: "string \<Rightarrow> (string list \<times> string list \<times> string) option"
  loads_critique :: "string \<Rightarrow> (bool \<times> string \<times> string list \<times> string list) option"
  search_invoke :: "nat \<Rightarrow> string \<Rightarrow> search_out"
  now :: string
  set_rank :: "string \<Rightarrow> nat"
  notion_import :: "exn option"
  notion_create :: "archive_args \<Rightarrow> exn + (string \<rightharpoonup> string)"

section \<open>Structured responses\<close>

text \<open>
  \<^verbatim>\<open>
  schema_str = "\n".join([f"- {k}: {v.annotation ...}" for k, v in schema_class.model_fields.items()])
  full_prompt = f"{prompt}\n\nRespond in JSON format with these fields:\n{schema_str}"
  \<close>
\<close>

fun model_fields :: "schema \<Rightarrow> (string \<times> string) list" where
  "model_fields ClarifyWithUserS =
     [(''need_clarification'', ''<class 'bool'>''), (''question'', ''<class 'str'>''),
      (''verification'', ''<class 'str'>'')]"
| "model_fields ResearchQuestionS =
     [(''research_brief'', ''<class 'str'>''), (''reasoning'', ''<class 'str'>'')]"
| "model_fields ResearchPlanS =
     [(''search_queries'', ''list[str]''), (''key_topics'', ''list[str]''),
      (''planning_reasoning'', ''<class 'str'>'')]"
| "model_fields CritiqueS =
     [(''needs_revision'', ''<class 'bool'>''), (''critique_reasoning'', ''<class 'str'>''),
      (''specific_issues'', ''list[str]''), (''improvements'', ''list[str]'')]"

definition schema_str :: "schema \<Rightarrow> string" where
  "schema_str sc = py_join nl (map (\<lambda>(k, v). ''- '' @ k @ '': '' @ v) (model_fields sc))"

definition full_prompt :: "string \<Rightarrow> schema \<Rightarrow> string" where
  "full_prompt prompt sc =
     prompt @ nl @ nl @ ''Respond in JSON format with these fields:'' @ nl @ schema_str sc"

text \<open>
  The fenced block: \<open>json_text.split(fence)[1].split("```")[0]\<close>. \<open>None\<close> is the
  \<open>IndexError\<close>.
\<close>

definition fenced :: "string \<Rightarrow> string \<Rightarrow> string option" where
  "fenced fence json_text =
     (case py_index (py_split fence json_text) 1 of
        None \<Rightarrow> None
      | Some inner \<Rightarrow> py_index (py_split ''```'' inner) 0)"

definition extract_json :: "string \<Rightarrow> string option" where
  "extract_json json_text =
     (if py_in ''```json'' json_text then fenced ''```json'' json_text
      else if py_in ''```'' json_text then fenced ''```'' json_text
      else Some json_text)"

text \<open>\<open>schema_class(**json.loads(text))\<close>\<close>

fun loads_schema :: "env \<Rightarrow> schema \<Rightarrow> string \<Rightarrow> structured option" where
  "loads_schema e ClarifyWithUserS t =
     map_option (\<lambda>(n, q, v). ClarifyWithUser n q v) (loads_clarify e t)"
| "loads_schema e ResearchQuestionS t =
     map_option (\<lambda>(b, r). ResearchQuestion b r) (loads_question e t)"
| "loads_schema e ResearchPlanS t =
     map_option (\<lambda>(q, k, r). ResearchPlan q k r) (loads_plan e t)"
| "loads_schema e CritiqueS t =
     map_option (\<lambda>(n, r, i, m). Critique n r i m) (loads_critique e t)"

text \<open>
  The body of the \<open>try\<close>: \<open>None\<close> when any of its statements raises (the \<open>.text\<close>
  accessor, an index, \<open>json.loads\<close>, the validation).
\<close>

definition parse_response :: "env \<Rightarrow> schema \<Rightarrow> exn + string \<Rightarrow> structured option" where
  "parse_response e sc text =
     (case text of
        Inl err \<Rightarrow> None
      | Inr json_text \<Rightarrow>
          (case extract_json json_text of
             None \<Rightarrow> None
           | Some j \<Rightarrow> loads_schema e sc (py_strip j)))"

text \<open>The \<open>except:\<close> branch.\<close>

fun safe_default :: "schema \<Rightarrow> string \<Rightarrow> structured" where
  "safe_default ClarifyWithUserS prompt =
     ClarifyWithUser True ''Could you provide more details?'' []"
| "safe_default ResearchQuestionS prompt = ResearchQuestion prompt []"
| "safe_default ResearchPlanS prompt = ResearchPlan [''general search''] [''main topic''] []"
| "safe_default CritiqueS prompt = Critique False [] [] []"

text \<open>
  \<open>get_structured_response(prompt, schema_class)\<close> at the \<open>k\<close>-th call of the service.
  The call of \<open>generate_content\<close> stands before the \<open>try\<close>: what it raises leaves the
  function.
\<close>

definition get_structured_response :: "env \<Rightarrow> nat \<Rightarrow> string \<Rightarrow> schema \<Rightarrow> exn + structured" where
  "get_structured_response e k prompt sc =
     (case generate_content e k (full_prompt prompt sc) of
        Raises err \<Rightarrow> Inl err
      | Response text \<Rightarrow>
          (case parse_response e sc text of
             Some v \<Rightarrow> Inr v
           | None \<Rightarrow> Inr (safe_default sc prompt)))"

section \<open>Prompts\<close>

text \<open>The fixed text that follows the interpolated part of each prompt.\<close>

definition clarify_instructions :: string where
  "clarify_instructions =
     ''\<newline>'' @
     ''\<newline>'' @
     ''Think step by step:\<newline>'' @
     ''1. Is the research request clear and specific?\<newline>'' @
     ''2. What key information might be missing?\<newline>'' @
     ''3. Can research begin or do we need clarification?\<newline>'' @
     ''\<newline>'' @
     ''Determine if there is sufficient information to begin research.\<newline>'' @
     ''If information is missing, ask ONE specific clarifying question.\<newline>'' @
     ''If sufficient information exists, provide a verification message.''"

definition brief_instructions :: string where
  "brief_instructions =
     ''\<newline>'' @
     ''\<newline>'' @
     ''Think step by step:\<newline>'' @
     ''1. What is the core research question?\<newline>'' @
     ''2. What are the key focus areas?\<newline>'' @
     ''3. What is the scope and boundaries?\<newline>'' @
     ''\<newline>'' @
     ''The research brief should clearly state the research question, specify key focus areas, and define scope.''"

definition plan_instructions :: string where
  "plan_instructions =
     ''\<newline>'' @
     ''\<newline>'' @
     ''Think step by step:\<newline>'' @
     ''1. What topics need to be covered comprehensively?\<newline>'' @
     ''2. What specific search queries will find the best information?\<newline>'' @
     ''3. How should queries be structured for maximum relevance?\<newline>'' @
     ''\<newline>'' @
     ''Generate 5-7 specific search queries and identify key topics.''"

definition synthesis_instructions :: string where
  "synthesis_instructions =
     ''\<newline>'' @
     ''\<newline>'' @
     ''Think step by step:\<newline>'' @
     ''1. What are the main themes and patterns in this data?\<newline>'' @
     ''2. What specific facts, numbers, names, and examples are most valuable?\<newline>'' @
     ''3. How should this information be organized for clarity?\<newline>'' @
     ''4. What actionable details must be preserved?\<newline>'' @
     ''\<newline>'' @
     ''Synthesize this information into comprehensive, well-structured notes.\<newline>'' @
     ''Extract ALL specific, actionable details including:\<newline>'' @
     ''- Names of companies, products, people, places, organizations\<newline>'' @
     ''- Exact numbers, statistics, dates, prices, measurements\<newline>'' @
     ''- Addresses, locations, contact information\<newline>'' @
     ''- URLs, website links, booking platforms\<newline>'' @
     ''- Step-by-step processes or instructions\<newline>'' @
     ''- Pros and cons, comparisons, rankings\<newline>'' @
     ''- Expert recommendations and best practices\<newline>'' @
     ''- Time-sensitive information (hours, schedules, deadlines)\<newline>'' @
     ''\<newline>'' @
     ''Organize the notes by topic and preserve all specific details that would be useful to someone acting on this research.''"

definition report_instructions :: string where
  "report_instructions =
     ''\<newline>'' @
     ''\<newline>'' @
     ''Think step by step:\<newline>'' @
     ''1. What is the best structure to present this information clearly?\<newline>'' @
     ''2. What are the most important findings to highlight?\<newline>'' @
     ''3. How can I make this maximally actionable and detailed?\<newline>'' @
     ''4. Have I included all specific data points and examples?\<newline>'' @
     ''\<newline>'' @
     ''Create a detailed, actionable research report with the following structure:\<newline>'' @
     ''\<newline>'' @
     ''1. TITLE: Create a clear, descriptive title\<newline>'' @
     ''\<newline>'' @
     ''2. EXECUTIVE SUMMARY: Provide a concise 3-4 sentence overview of the research findings\<newline>'' @
     ''\<newline>'' @
     ''3. KEY FINDINGS: List 7-10 most important discoveries with specific details (names, numbers, links)\<newline>'' @
     ''\<newline>'' @
     ''4. DETAILED ANALYSIS: Write 5-7 comprehensive paragraphs organized by themes/topics. Include:\<newline>'' @
     ''   - All specific names, brands, products, services mentioned\<newline>'' @
     ''   - Exact numbers, prices, statistics, percentages\<newline>'' @
     ''   - Step-by-step processes or how-to information\<newline>'' @
     ''   - Comparisons and rankings\<newline>'' @
     ''   - Expert opinions and recommendations\<newline>'' @
     ''   - Time-sensitive details (dates, schedules, hours)\<newline>'' @
     ''   - Contact information and locations where relevant\<newline>'' @
     ''\<newline>'' @
     ''5. PRACTICAL RECOMMENDATIONS: Provide 5-7 actionable next steps or recommendations based on the research\<newline>'' @
     ''\<newline>'' @
     ''6. IMPORTANT RESOURCES: List specific websites, tools, platforms, or contacts discovered\<newline>'' @
     ''\<newline>'' @
     ''7. CONCLUSION: Summarize key takeaways and final thoughts\<newline>'' @
     ''\<newline>'' @
     ''Make the report comprehensive and include every useful specific detail from the research. Format it clearly with proper sections.''"

definition critique_instructions :: string where
  "critique_instructions =
     ''\<newline>'' @
     ''\<newline>'' @
     ''Think step by step (reflection):\<newline>'' @
     ''1. Does this report fully answer the research question with sufficient depth?\<newline>'' @
     ''2. Are there any missing details, information gaps, or unclear sections?\<newline>'' @
     ''3. Is the structure logical, well-organized, and easy to follow?\<newline>'' @
     ''4. Are specific examples, data points, numbers, and sources provided throughout?\<newline>'' @
     ''5. Is this report actionable with concrete recommendations?\<newline>'' @
     ''6. Does it meet professional research report standards?\<newline>'' @
     ''\<newline>'' @
     ''Evaluate the report and determine if revision is needed. Be thorough but fair.''"

text \<open>\<open>"\n".join([f"{msg.type}: {msg.content}" for msg in messages])\<close>\<close>

definition conversation :: "message list \<Rightarrow> string" where
  "conversation msgs = py_join nl (map (\<lambda>m. msg_type m @ '': '' @ msg_content m) msgs)"

definition clarify_prompt :: "agent_state \<Rightarrow> string" where
  "clarify_prompt s =
     ''Analyze this conversation: '' @ conversation (messages s) @ clarify_instructions"

definition brief_prompt :: "agent_state \<Rightarrow> string" where
  "brief_prompt s =
     ''Transform this conversation into a clear research brief: '' @
     conversation (messages s) @ brief_instructions"

definition plan_prompt :: "string \<Rightarrow> string" where
  "plan_prompt brief = ''Create a research plan for: '' @ brief @ plan_instructions"

definition synthesis_prompt :: "agent_state \<Rightarrow> string" where
  "synthesis_prompt s =
     ''Research Brief: '' @ brief_of s @ nl @
     ''Key Topics: '' @ py_join '', '' (key_topics s) @ nl @
     ''Raw Research Data:'' @ nl @
     py_join nl (raw_notes s) @ synthesis_instructions"

definition feedback_section :: "string \<Rightarrow> string" where
  "feedback_section feedback =
     (if feedback \<noteq> [] then
        nl @ nl @ ''PREVIOUS CRITIQUE TO ADDRESS:'' @ nl @ feedback @ nl @ nl @
        ''Please revise the report addressing all critique points.''
      else [])"

definition report_prompt :: "agent_state \<Rightarrow> string" where
  "report_prompt s =
     ''You are an expert research analyst creating a comprehensive report.'' @ nl @ nl @
     ''Research Brief: '' @ brief_of s @ nl @ nl @
     ''Synthesized Research Notes:'' @ nl @
     py_join nl (notes' s) @ nl @
     feedback_section (critique_feedback s) @ report_instructions"

definition critique_prompt :: "agent_state \<Rightarrow> string" where
  "critique_prompt s =
     ''You are a critical reviewer evaluating a research report for quality, completeness, and actionability.'' @
     nl @ nl @
     ''Research Brief: '' @ brief_of s @ nl @ nl @
     ''Draft Report:'' @ nl @
     draft_report s @ critique_instructions"

section \<open>Stages\<close>

text \<open>
  A stage takes the number \<open>k\<close> of calls made to the text-generation service so far and
  the state, and returns the exception that leaves it, or the node of its
  \<open>Command(goto=...)\<close>, the new number of calls and the state with the command's
  \<open>update\<close> applied (\<open>messages\<close> is appended to, every other key is replaced).
  The stages are those of \<open>deep_researcher.py\<close>. Those of \<open>deep_researcher_api.py\<close> have
  the same control flow and the same updates of every key but \<open>messages\<close>, to which they
  append progress messages.
\<close>

type_synonym stage_result = "exn + (node \<times> nat \<times> agent_state)"

text \<open>
  An attribute of one schema read off a value of another raises \<open>AttributeError\<close>.
\<close>

definition attribute_error :: exn where
  "attribute_error = ''AttributeError''"

definition clarify_with_user :: "env \<Rightarrow> nat \<Rightarrow> agent_state \<Rightarrow> stage_result" where
  "clarify_with_user e k s =
     (case get_structured_response e k (clarify_prompt s) ClarifyWithUserS of
        Inl err \<Rightarrow> Inl err
      | Inr (ClarifyWithUser need q v) \<Rightarrow>
          if need then Inr (END, Suc k, s\<lparr>messages := messages s @ [AIMessage q]\<rparr>)
          else Inr (Planner, Suc k, s\<lparr>messages := messages s @ [AIMessage v]\<rparr>)
      | Inr _ \<Rightarrow> Inl attribute_error)"

definition planner_agent :: "env \<Rightarrow> nat \<Rightarrow> agent_state \<Rightarrow> stage_result" where
  "planner_agent e k s =
     (case get_structured_response e k (brief_prompt s) ResearchQuestionS of
        Inl err \<Rightarrow> Inl err
      | Inr (ResearchQuestion brief reasoning) \<Rightarrow>
          (case get_structured_response e (Suc k) (plan_prompt brief) ResearchPlanS of
             Inl err \<Rightarrow> Inl err
           | Inr (ResearchPlan queries topics r) \<Rightarrow>
               Inr (Researcher, Suc (Suc k),
                    s\<lparr>research_brief := Some brief, search_queries := queries,
                      key_topics := topics\<rparr>)
           | Inr _ \<Rightarrow> Inl attribute_error)
      | Inr _ \<Rightarrow> Inl attribute_error)"

text \<open>
  \<^verbatim>\<open>
  content = result.get('content', '') if isinstance(result, dict) else str(result)
  url = result.get('url', '') if isinstance(result, dict) else ''
  if content:
      raw_notes.append(f"Source: {url}\n{content}")
  \<close>
\<close>

fun note_of_result :: "search_item \<Rightarrow> string list" where
  "note_of_result (DictResult content url) =
     (if content \<noteq> [] then [''Source: '' @ url @ nl @ content] else [])"
| "note_of_result (OtherResult str) =
     (if str \<noteq> [] then [''Source: '' @ [] @ nl @ str] else [])"

text \<open>The loop over \<open>enumerate(search_queries, 1)\<close>: the notes it appends.\<close>

fun research_loop :: "env \<Rightarrow> nat \<Rightarrow> string list \<Rightarrow> string list" where
  "research_loop e i [] = []"
| "research_loop e i (query # queries) =
     (case search_invoke e i query of
        SearchRaises err \<Rightarrow> []
      | SearchList results \<Rightarrow> concat (map note_of_result results)
      | SearchOther results \<Rightarrow> [''Query result:'' @ nl @ results])
     @ research_loop e (Suc i) queries"

definition researcher_agent :: "env \<Rightarrow> nat \<Rightarrow> agent_state \<Rightarrow> stage_result" where
  "researcher_agent e k s =
     Inr (Synthesis, k, s\<lparr>raw_notes := research_loop e 1 (search_queries s)\<rparr>)"

text \<open>
  \<^verbatim>\<open>
  synthesized = model.generate_content(synthesis_prompt)
  notes = [synthesized.text]
  \<close>
  Neither statement is inside a \<open>try\<close>.
\<close>

definition synthesis_agent :: "env \<Rightarrow> nat \<Rightarrow> agent_state \<Rightarrow> stage_result" where
  "synthesis_agent e k s =
     (case generate_content e k (synthesis_prompt s) of
        Raises err \<Rightarrow> Inl err
      | Response (Inl err) \<Rightarrow> Inl err
      | Response (Inr text) \<Rightarrow> Inr (Writer, Suc k, s\<lparr>notes' := [text]\<rparr>))"

text \<open>
  \<^verbatim>\<open>
  try:
      response = model.generate_content(report_prompt)
      report_text = response.text
  except Exception as e:
      report_text = f"Error generating report: {e}\n\nRaw Notes:\n{chr(10).join(notes)}"
  \<close>
\<close>

definition error_report :: "exn \<Rightarrow> string list \<Rightarrow> string" where
  "error_report err ns =
     ''Error generating report: '' @ err @ nl @ nl @ ''Raw Notes:'' @ nl @ py_join nl ns"

definition report_text :: "env \<Rightarrow> nat \<Rightarrow> agent_state \<Rightarrow> string" where
  "report_text e k s =
     (case generate_content e k (report_prompt s) of
        Raises err \<Rightarrow> error_report err (notes' s)
      | Response (Inl err) \<Rightarrow> error_report err (notes' s)
      | Response (Inr text) \<Rightarrow> text)"

definition writer_agent :: "env \<Rightarrow> nat \<Rightarrow> agent_state \<Rightarrow> stage_result" where
  "writer_agent e k s = Inr (Critic, Suc k, s\<lparr>draft_report := report_text e k s\<rparr>)"

text \<open>
  \<^verbatim>\<open>
  iteration = state.get("iteration_count", 0)
  MAX_ITERATIONS = 2
  critique = get_structured_response(critique_prompt, Critique)
  if critique.needs_revision and iteration < MAX_ITERATIONS:
      feedback = ...
      return Command(goto="writer_agent", update={
          "critique_feedback": feedback, "iteration_count": iteration + 1})
  else:
      return Command(goto="finalizer")
  \<close>
\<close>

definition MAX_ITERATIONS :: int where
  "MAX_ITERATIONS = 2"

definition feedback_text :: "string list \<Rightarrow> string list \<Rightarrow> string \<Rightarrow> string" where
  "feedback_text issues imps reasoning =
     ''Issues identified:'' @ nl @
     py_join nl (map (\<lambda>issue. ''- '' @ issue) issues) @ nl @ nl @
     ''Improvements needed:'' @ nl @
     py_join nl (map (\<lambda>imp. ''- '' @ imp) imps) @ nl @ nl @
     ''Reasoning: '' @ reasoning"

definition critic_agent :: "env \<Rightarrow> nat \<Rightarrow> agent_state \<Rightarrow> stage_result" where
  "critic_agent e k s =
     (let iteration = iteration_count s in
      case get_structured_response e k (critique_prompt s) CritiqueS of
        Inl err \<Rightarrow> Inl err
      | Inr (Critique revise reasoning issues imps) \<Rightarrow>
          if revise \<and> iteration < MAX_ITERATIONS then
            Inr (Writer, Suc k,
                 s\<lparr>critique_feedback := feedback_text issues imps reasoning,
                   iteration_count := iteration + 1\<rparr>)
          else Inr (Finalizer, Suc k, s)
      | Inr _ \<Rightarrow> Inl attribute_error)"

section \<open>Finalizer\<close>

text \<open>
  \<open>list(set(xs))\<close>: the distinct elements of \<open>xs\<close>, in the order of the hash table. The
  order is that of the ranks \<open>rank\<close> gives the strings; every order of the distinct
  elements is the order of some ranking (\<open>py_list_set_any_order\<close> below).
\<close>

definition py_list_set :: "(string \<Rightarrow> nat) \<Rightarrow> string list \<Rightarrow> string list" where
  "py_list_set rank xs = sort_key rank (remdups xs)"

text \<open>
  \<open>note.split('\n')[0]\<close>. A split is never empty (\<open>py_split_not_Nil\<close> below), so the
  index never raises.
\<close>

definition first_line :: "string \<Rightarrow> string" where
  "first_line note = (case py_split nl note of [] \<Rightarrow> [] | l # ls \<Rightarrow> l)"

text \<open>
  \<^verbatim>\<open>
  sources = list(set([note.split('\n')[0].replace('Source: ', '')
                      for note in raw_notes if note.startswith('Source:')]))
  \<close>
\<close>

definition source_id :: "string \<Rightarrow> string" where
  "source_id note = py_replace ''Source: '' [] (first_line note)"

definition tagged_ids :: "string list \<Rightarrow> string list" where
  "tagged_ids raw = map source_id (filter (\<lambda>note. startswith note ''Source:'') raw)"

definition sources :: "env \<Rightarrow> agent_state \<Rightarrow> string list" where
  "sources e s = py_list_set (set_rank e) (tagged_ids (raw_notes s))"

text \<open>The sources the report lists: \<open>sources[:25]\<close>.\<close>

definition listed_sources :: "env \<Rightarrow> agent_state \<Rightarrow> string list" where
  "listed_sources e s = take 25 (sources e s)"

text \<open>
  \<^verbatim>\<open>
  for i, source in enumerate(sources[:25], 1):
      formatted_report += f"{i}. {source}\n"
  \<close>
\<close>

fun source_lines :: "nat \<Rightarrow> string list \<Rightarrow> string" where
  "source_lines i [] = []"
| "source_lines i (source # rest) =
     str_nat i @ ''. '' @ source @ nl @ source_lines (Suc i) rest"

definition report_header :: "string \<Rightarrow> string" where
  "report_header draft =
     nl @ rule70 @ nl @
     ''AI DEEP RESEARCHER - COMPREHENSIVE REPORT'' @ nl @
     rule70 @ nl @ nl @
     draft @ nl @ nl @
     rule70 @ nl @
     ''SOURCES CONSULTED'' @ nl @
     rule70 @ nl"

definition report_footer :: "env \<Rightarrow> agent_state \<Rightarrow> string" where
  "report_footer e s =
     nl @ rule70 @ nl @
     ''Report Generated: '' @ now e @ nl @
     ''Research Quality: '' @ str_nat (length (raw_notes s)) @ '' sources analyzed'' @ nl @
     ''Reflection Iterations: '' @ str_int (iteration_count s) @ nl @
     ''System: Multi-Agent with Reflection & Chain of Thought'' @ nl @
     rule70"

definition formatted_report :: "env \<Rightarrow> agent_state \<Rightarrow> string" where
  "formatted_report e s =
     report_header (draft_report s) @ source_lines 1 (listed_sources e s) @ report_footer e s"

text \<open>
  \<open>create_research_page\<close> of \<open>notion_manager.py\<close>: its whole body is one \<open>try\<close>, and
  \<open>except Exception as e\<close> returns \<open>{"success": False, "error": str(e)}\<close>. After
  \<open>notion.pages.create\<close> it reads \<open>page["id"]\<close> and \<open>page["url"]\<close>; a missing key is
  a \<open>KeyError\<close>, whose \<open>str\<close> is the quoted key.
\<close>

definition key_error :: "string \<Rightarrow> exn" where
  "key_error key = [CHR 0x27] @ key @ [CHR 0x27]"

definition create_research_page :: "env \<Rightarrow> archive_args \<Rightarrow> page_result" where
  "create_research_page e args =
     (case notion_create e args of
        Inl err \<Rightarrow> PageFailed err
      | Inr page \<Rightarrow>
          (case page ''id'' of
             None \<Rightarrow> PageFailed (key_error ''id'')
           | Some page_id \<Rightarrow>
               (case page ''url'' of
                  None \<Rightarrow> PageFailed (key_error ''url'')
                | Some url \<Rightarrow> PageCreated page_id url (arg_title args))))"

text \<open>The arguments the finalizer passes to \<open>create_research_page\<close>.\<close>

definition page_args :: "env \<Rightarrow> agent_state \<Rightarrow> archive_args" where
  "page_args e s =
     \<lparr>arg_title = extract_title (draft_report s),
      arg_research_brief = brief_of s,
      arg_report_content = formatted_report e s,
      arg_sources_count = length (sources e s),
      arg_key_topics = key_topics s\<rparr>"

text \<open>
  \<^verbatim>\<open>
  try:
      from notion_manager import create_research_page
      result = create_research_page(...)
      if result["success"]:
          notion_url = result['url']
      else:
          notion_url = ""
  except Exception as e:
      notion_url = ""
  \<close>
\<close>

definition notion_url :: "env \<Rightarrow> agent_state \<Rightarrow> string" where
  "notion_url e s =
     (case notion_import e of
        Some err \<Rightarrow> []
      | None \<Rightarrow>
          (case create_research_page e (page_args e s) of
             PageCreated page_id url title \<Rightarrow> url
           | PageFailed err \<Rightarrow> []))"

definition finalizer :: "env \<Rightarrow> nat \<Rightarrow> agent_state \<Rightarrow> stage_result" where
  "finalizer e k s =
     Inr (END, k, s\<lparr>final_report := formatted_report e s, notion_page_url := notion_url e s\<rparr>)"

section \<open>The workflow\<close>

text \<open>
  \<open>build_full_workflow\<close>: the seven nodes, entered at \<open>clarify_with_user\<close>; each node's
  command names the next one.
\<close>

fun stage :: "node \<Rightarrow> env \<Rightarrow> nat \<Rightarrow> agent_state \<Rightarrow> stage_result" where
  "stage Clarify = clarify_with_user"
| "stage Planner = planner_agent"
| "stage Researcher = researcher_agent"
| "stage Synthesis = synthesis_agent"
| "stage Writer = writer_agent"
| "stage Critic = critic_agent"
| "stage Finalizer = finalizer"
| "stage END = (\<lambda>e k s. Inr (END, k, s))"

text \<open>The measure under which every transition of the graph descends.\<close>

fun node_rank :: "node \<Rightarrow> nat" where
  "node_rank Clarify = 7"
| "node_rank Planner = 6"
| "node_rank Researcher = 5"
| "node_rank Synthesis = 4"
| "node_rank Writer = 3"
| "node_rank Critic = 2"
| "node_rank Finalizer = 1"
| "node_rank END = 0"

definition run_measure :: "node \<Rightarrow> agent_state \<Rightarrow> nat" where
  "run_measure nd s = nat (MAX_ITERATIONS - iteration_count s) * 8 + node_rank nd"

lemma get_structured_response_schema:
  "get_structured_response e k p sc = Inr v \<Longrightarrow>
     (case sc of
        ClarifyWithUserS \<Rightarrow> \<exists>a b c. v = ClarifyWithUser a b c
      | ResearchQuestionS \<Rightarrow> \<exists>a b. v = ResearchQuestion a b
      | ResearchPlanS \<Rightarrow> \<exists>a b c. v = ResearchPlan a b c
      | CritiqueS \<Rightarrow> \<exists>a b c d. v = Critique a b c d)"
  by (cases sc)
     (auto simp: get_structured_response_def parse_response_def
           split: gen_result.splits option.splits sum.splits)

lemma stage_descends:
  assumes "nd \<noteq> END" and "stage nd e k s = Inr (nd', k', s')"
  shows "run_measure nd' s' < run_measure nd s"
proof (cases nd)
  case Clarify
  with assms show ?thesis
    by (auto simp: clarify_with_user_def run_measure_def
             split: sum.splits structured.splits if_splits)
next
  case Planner
  with assms show ?thesis
    by (auto simp: planner_agent_def run_measure_def split: sum.splits structured.splits)
next
  case Researcher
  with assms show ?thesis by (auto simp: researcher_agent_def run_measure_def)
next
  case Synthesis
  with assms show ?thesis
    by (auto simp: synthesis_agent_def run_measure_def split: gen_result.splits sum.splits)
next
  case Writer
  with assms show ?thesis by (auto simp: writer_agent_def run_measure_def)
next
  case Critic
  with assms show ?thesis
    by (auto simp: critic_agent_def run_measure_def MAX_ITERATIONS_def Let_def
             split: sum.splits structured.splits if_splits)
next
  case Finalizer
  with assms show ?thesis by (auto simp: finalizer_def run_measure_def)
next
  case END
  with assms show ?thesis by simp
qed

text \<open>
  LangGraph's loop: run the current node, apply its command, go on at the node it names,
  stop at \<open>END\<close>; an exception that leaves a node leaves \<open>invoke\<close>. The result carries the
  list of the nodes that ran, in order.
\<close>

function run :: "env \<Rightarrow> node \<Rightarrow> nat \<Rightarrow> agent_state \<Rightarrow> exn + (node list \<times> nat \<times> agent_state)" where
  "run e nd k s =
     (if nd = END then Inr ([], k, s)
      else (case stage nd e k s of
              Inl err \<Rightarrow> Inl err
            | Inr (nd', k', s') \<Rightarrow>
                (case run e nd' k' s' of
                   Inl err \<Rightarrow> Inl err
                 | Inr (trace, r) \<Rightarrow> Inr (nd # trace, r))))"
  by pat_completeness auto
termination
  by (relation "measure (\<lambda>(e, nd, k, s). run_measure nd s)") (auto dest: stage_descends)

declare run.simps [simp del]

definition invoke :: "env \<Rightarrow> message list \<Rightarrow> exn + (node list \<times> nat \<times> agent_state)" where
  "invoke e msgs = run e Clarify 0 (initial_state msgs)"

text \<open>The configurations a run from \<open>msgs\<close> passes through.\<close>

inductive reachable :: "env \<Rightarrow> message list \<Rightarrow> node \<Rightarrow> nat \<Rightarrow> agent_state \<Rightarrow> bool"
  for e :: env and msgs :: "message list" where
  start: "reachable e msgs Clarify 0 (initial_state msgs)"
| step: "reachable e msgs nd k s \<Longrightarrow> nd \<noteq> END \<Longrightarrow> stage nd e k s = Inr (nd', k', s') \<Longrightarrow>
         reachable e msgs nd' k' s'"

section \<open>The title policy as the specification words it\<close>

text \<open>
  The specification's wording of the title policy, for comparison with \<open>extract_title\<close>:
  scan the first 10 non-empty lines of the draft, skip the lines that start with a
  separator or heading marker, pick the first remaining line longer than 10 characters,
  truncate it to 100 characters, and fall back to the default title.
\<close>

definition title_per_spec :: "string \<Rightarrow> string" where
  "title_per_spec draft =
     (case filter (\<lambda>line. \<not> startswith line ''='' \<and> \<not> startswith line ''#'' \<and> length line > 10)
             (take 10 (filter (\<lambda>line. line \<noteq> []) (map py_strip (py_split nl draft)))) of
        [] \<Rightarrow> ''Research Report''
      | line # rest \<Rightarrow> take 100 line)"

section \<open>Example sessions\<close>

text \<open>
  A session in which every structured response parses, the critique always asks for a
  revision, the search returns one result per query and the archive refuses the page.
\<close>

definition demo_env :: env where
  "demo_env =
     \<lparr>generate_content = (\<lambda>k p. Response (Inr ''{}'')),
      loads_clarify = (\<lambda>t. Some (False, ''Which region?'', ''Understood.'')),
      loads_question = (\<lambda>t. Some (''Hiking trails near Denver'', [])),
      loads_plan = (\<lambda>t. Some ([''denver trails''], [''hiking''], [])),
      loads_critique = (\<lambda>t. Some (True, ''too short'', [''no sources''], [''add sources''])),
      search_invoke = (\<lambda>i q. SearchList [DictResult ''Bear Peak is steep.'' ''https://trails.example/bear'']),
      now = ''2024-05-01 12:00:00'',
      set_rank = length,
      notion_import = None,
      notion_create = (\<lambda>a. Inl ''unauthorized'')\<rparr>"

definition demo_msgs :: "message list" where
  "demo_msgs = [HumanMessage ''best hiking trails near Denver'']"

definition demo_draft_state :: agent_state where
  "demo_draft_state =
     (initial_state demo_msgs)
       \<lparr>messages := demo_msgs @ [AIMessage ''Understood.''],
        research_brief := Some ''Hiking trails near Denver'',
        search_queries := [''denver trails''],
        key_topics := [''hiking''],
        raw_notes := [''Source: https://trails.example/bear\<newline>Bear Peak is steep.''],
        notes' := [''{}''],
        draft_report := ''{}''\<rparr>"

text \<open>A draft that opens with ten empty lines.\<close>

definition blank_led_draft :: string where
  "blank_led_draft =
     ''\<newline>\<newline>\<newline>\<newline>\<newline>\<newline>\<newline>\<newline>\<newline>\<newline>Quarterly Market Overview''"

text \<open>A draft with a heading, an empty line and a title line.\<close>

definition titled_draft :: string where
  "titled_draft = ''# Report\<newline>\<newline>  Hiking Trails Near Denver  \<newline>Body.''"

text \<open>Every critique the service can be asked for parses and asks for a revision.\<close>

definition always_revise :: "env \<Rightarrow> bool" where
  "always_revise e \<longleftrightarrow>
     (\<forall>k p. \<exists>c. get_structured_response e k p CritiqueS = Inr c \<and> needs_revision c)"

text \<open>The nodes of a session that revises twice.\<close>

definition full_trace :: "node list" where
  "full_trace =
     [Clarify, Planner, Researcher, Synthesis, Writer, Critic, Writer, Critic, Writer, Critic,
      Finalizer]"

text \<open>The example session after its second revision, and at its end.\<close>

definition demo_revised_state :: agent_state where
  "demo_revised_state =
     demo_draft_state
       \<lparr>critique_feedback := feedback_text [''no sources''] [''add sources''] ''too short'',
        iteration_count := 2\<rparr>"

definition demo_final_state :: agent_state where
  "demo_final_state =
     demo_revised_state
       \<lparr>final_report := formatted_report demo_env demo_revised_state, notion_page_url := []\<rparr>"

text \<open>The position of \<open>x\<close> in \<open>ys\<close>: the ranking that iterates a set in the order \<open>ys\<close>.\<close>

definition position :: "'a list \<Rightarrow> 'a \<Rightarrow> nat" where
  "position ys x = length (takeWhile (\<lambda>y. y \<noteq> x) ys)"

text \<open>The service answers in prose: nothing parses as a clarification or a critique.\<close>

definition garbled_env :: env where
  "garbled_env =
     demo_env
       \<lparr>generate_content := (\<lambda>k p. Response (Inr ''Sorry, here is some prose instead.'')),
        loads_clarify := (\<lambda>t. None),
        loads_critique := (\<lambda>t. None)\<rparr>"

text \<open>The service raises on its fourth call of the session, the synthesis.\<close>

definition outage_env :: env where
  "outage_env =
     demo_env
       \<lparr>generate_content :=
          (\<lambda>k p. if k = 3 then Raises ''503 Service Unavailable'' else Response (Inr ''{}''))\<rparr>"

text \<open>The service raises on every call.\<close>

definition no_service_env :: env where
  "no_service_env = demo_env\<lparr>generate_content := (\<lambda>k p. Raises ''429 Quota exceeded'')\<rparr>"

text \<open>The service raises on its fifth call of the session, the first draft.\<close>

definition writer_outage_env :: env where
  "writer_outage_env =
     demo_env
       \<lparr>generate_content :=
          (\<lambda>k p. if k = 4 then Raises ''503 Service Unavailable'' else Response (Inr ''{}''))\<rparr>"

text \<open>The example session with an archive that creates the page.\<close>

definition archiving_env :: env where
  "archiving_env =
     demo_env
       \<lparr>notion_create :=
          (\<lambda>a. Inr [''id'' \<mapsto> ''p1'', ''url'' \<mapsto> ''https://notion.example/p1''])\<rparr>"

text \<open>The example session before its first draft.\<close>

definition demo_synth_state :: agent_state where
  "demo_synth_state = demo_draft_state\<lparr>draft_report := []\<rparr>"

section \<open>Strings: basic facts\<close>

lemma py_split_not_Nil: "sep \<noteq> [] \<Longrightarrow> py_split sep s \<noteq> []"
  by (subst py_split.simps) (simp split: option.splits)

section \<open>The revision counter\<close>

lemma stage_counter:
  assumes "stage nd e k s = Inr (nd', k', s')"
  shows "iteration_count s' = iteration_count s \<or>
         (nd = Critic \<and> nd' = Writer \<and> iteration_count s < MAX_ITERATIONS \<and>
          iteration_count s' = iteration_count s + 1 \<and>
          (\<exists>c. get_structured_response e k (critique_prompt s) CritiqueS = Inr c \<and>
               needs_revision c))"
proof (cases nd)
  case Clarify
  with assms show ?thesis
    by (auto simp: clarify_with_user_def split: sum.splits structured.splits if_splits)
next
  case Planner
  with assms show ?thesis
    by (auto simp: planner_agent_def split: sum.splits structured.splits)
next
  case Researcher
  with assms show ?thesis by (auto simp: researcher_agent_def)
next
  case Synthesis
  with assms show ?thesis
    by (auto simp: synthesis_agent_def split: gen_result.splits sum.splits)
next
  case Writer
  with assms show ?thesis by (auto simp: writer_agent_def)
next
  case Critic
  with assms show ?thesis
    by (auto simp: critic_agent_def Let_def split: sum.splits structured.splits if_splits)
next
  case Finalizer
  with assms show ?thesis by (auto simp: finalizer_def)
next
  case END
  with assms show ?thesis by auto
qed

lemma critic_revises:
  assumes "get_structured_response e k (critique_prompt s) CritiqueS = Inr c"
    and "needs_revision c" and "iteration_count s < MAX_ITERATIONS"
  shows "critic_agent e k s =
           Inr (Writer, Suc k,
                s\<lparr>critique_feedback :=
                    feedback_text (specific_issues c) (improvements c) (critique_reasoning c),
                  iteration_count := iteration_count s + 1\<rparr>)"
proof -
  from get_structured_response_schema [OF assms(1)]
  obtain a b c' d where "c = Critique a b c' d" by auto
  with assms show ?thesis by (simp add: critic_agent_def)
qed

lemma critic_stops:
  assumes "get_structured_response e k (critique_prompt s) CritiqueS = Inr c"
    and "\<not> (needs_revision c \<and> iteration_count s < MAX_ITERATIONS)"
  shows "critic_agent e k s = Inr (Finalizer, Suc k, s)"
proof -
  from get_structured_response_schema [OF assms(1)]
  obtain a b c' d where "c = Critique a b c' d" by auto
  with assms show ?thesis by (auto simp add: critic_agent_def)
qed

lemma reachable_counter:
  "reachable e msgs nd k s \<Longrightarrow> 0 \<le> iteration_count s \<and> iteration_count s \<le> MAX_ITERATIONS"
proof (induction rule: reachable.induct)
  case start
  show ?case by (simp add: initial_state_def MAX_ITERATIONS_def)
next
  case (step nd k s nd' k' s')
  from stage_counter [OF step.hyps(3)] step.IH show ?case by auto
qed

text \<open>
  C1. In every session the revision counter starts at 0; across every stage transition
  from a configuration the session passes through it never decreases and stays within
  0 and the maximum 2; and it changes only by growing by exactly 1, which happens exactly
  when the critic stage runs with the counter below 2 and its critique asks for a revision.
\<close>

theorem revision_counter_bounded:
  assumes "reachable e msgs nd k s" and "stage nd e k s = Inr (nd', k', s')"
  shows "iteration_count (initial_state msgs) = 0 \<and>
         0 \<le> iteration_count s \<and> iteration_count s \<le> iteration_count s' \<and>
         iteration_count s' \<le> 2 \<and>
         (iteration_count s' = iteration_count s \<or>
          iteration_count s' = iteration_count s + 1) \<and>
         (iteration_count s' = iteration_count s + 1 \<longleftrightarrow>
            nd = Critic \<and> iteration_count s < 2 \<and>
            (\<exists>c. get_structured_response e k (critique_prompt s) CritiqueS = Inr c \<and>
                 needs_revision c))"
proof -
  note b = reachable_counter [OF assms(1)]
  note c = stage_counter [OF assms(2)]
  have init: "iteration_count (initial_state msgs) = 0"
    by (simp add: initial_state_def)
  have incr: "iteration_count s' = iteration_count s + 1"
    if "nd = Critic" "iteration_count s < 2"
       "get_structured_response e k (critique_prompt s) CritiqueS = Inr c" "needs_revision c"
    for c
    using critic_revises [OF that(3) that(4)] that(1,2) assms(2)
    by (auto simp add: MAX_ITERATIONS_def)
  from b c init incr show ?thesis
    by (auto simp: MAX_ITERATIONS_def)
qed

lemma demo_reaches_critic: "reachable demo_env demo_msgs Critic 5 demo_draft_state"
proof -
  let ?s0 = "initial_state demo_msgs"
  let ?s1 = "?s0\<lparr>messages := demo_msgs @ [AIMessage ''Understood.'']\<rparr>"
  let ?s2 = "?s1\<lparr>research_brief := Some ''Hiking trails near Denver'',
                 search_queries := [''denver trails''], key_topics := [''hiking'']\<rparr>"
  let ?s3 = "?s2\<lparr>raw_notes := [''Source: https://trails.example/bear\<newline>Bear Peak is steep.'']\<rparr>"
  let ?s4 = "?s3\<lparr>notes' := [''{}'']\<rparr>"
  have r0: "reachable demo_env demo_msgs Clarify 0 ?s0"
    by (rule reachable.start)
  have "stage Clarify demo_env 0 ?s0 = Inr (Planner, 1, ?s1)"
    by (simp add: clarify_with_user_def get_structured_response_def parse_response_def
          extract_json_def py_in_def demo_env_def initial_state_def)
  from reachable.step [OF r0 _ this]
  have r1: "reachable demo_env demo_msgs Planner 1 ?s1" by simp
  have "stage Planner demo_env 1 ?s1 = Inr (Researcher, 3, ?s2)"
    by (simp add: planner_agent_def get_structured_response_def parse_response_def
          extract_json_def py_in_def demo_env_def initial_state_def eval_nat_numeral)
  from reachable.step [OF r1 _ this]
  have r2: "reachable demo_env demo_msgs Researcher 3 ?s2" by simp
  have "stage Researcher demo_env 3 ?s2 = Inr (Synthesis, 3, ?s3)"
    by (simp add: researcher_agent_def demo_env_def initial_state_def nl_def)
  from reachable.step [OF r2 _ this]
  have r3: "reachable demo_env demo_msgs Synthesis 3 ?s3" by simp
  have "stage Synthesis demo_env 3 ?s3 = Inr (Writer, 4, ?s4)"
    by (simp add: synthesis_agent_def demo_env_def initial_state_def)
  from reachable.step [OF r3 _ this]
  have r4: "reachable demo_env demo_msgs Writer 4 ?s4" by simp
  have "stage Writer demo_env 4 ?s4 = Inr (Critic, 5, demo_draft_state)"
    by (simp add: writer_agent_def report_text_def demo_env_def demo_draft_state_def
          initial_state_def)
  from reachable.step [OF r4 _ this]
  show ?thesis by simp
qed

lemma demo_critic_step:
  "stage Critic demo_env 5 demo_draft_state =
     Inr (Writer, 6,
          demo_draft_state
            \<lparr>critique_feedback := feedback_text [''no sources''] [''add sources''] ''too short'',
             iteration_count := 1\<rparr>)"
  by (simp add: critic_agent_def get_structured_response_def parse_response_def
        extract_json_def py_in_def demo_env_def demo_draft_state_def initial_state_def
        MAX_ITERATIONS_def)

theorem revision_counter_bounded_witness:
  "reachable demo_env demo_msgs Critic 5 demo_draft_state \<and>
   stage Critic demo_env 5 demo_draft_state =
     Inr (Writer, 6,
          demo_draft_state
            \<lparr>critique_feedback := feedback_text [''no sources''] [''add sources''] ''too short'',
             iteration_count := 1\<rparr>) \<and>
   iteration_count demo_draft_state = 0 \<and>
   iteration_count
     (demo_draft_state
        \<lparr>critique_feedback := feedback_text [''no sources''] [''add sources''] ''too short'',
         iteration_count := 1\<rparr>) \<le> 2"
  using revision_counter_bounded [OF demo_reaches_critic demo_critic_step]
    demo_reaches_critic demo_critic_step
  by (simp add: demo_draft_state_def initial_state_def)

section \<open>Title extraction\<close>

lemma title_loop_filter:
  "title_loop ls =
     (case filter title_ok (map py_strip ls) of
        [] \<Rightarrow> ''Research Report''
      | line # rest \<Rightarrow> take 100 line)"
  by (induction ls) (simp_all add: Let_def)

text \<open>
  C7, as amended. The title is found in the first 10 lines of the draft, empty lines
  counted among the 10: each line is stripped; empty lines, lines that start with \<open>=\<close> or
  \<open>#\<close> and lines of at most 10 characters are skipped; the first remaining line, cut to
  100 characters, is the title; when none remains the title is \<open>Research Report\<close>.
\<close>

theorem extract_title_policy:
  "extract_title draft =
     (case filter (\<lambda>line. line \<noteq> [] \<and> \<not> prefix ''='' line \<and> \<not> prefix ''#'' line \<and> 10 < length line)
             (map py_strip (take 10 (py_split nl draft))) of
        [] \<Rightarrow> ''Research Report''
      | line # rest \<Rightarrow> take 100 line)"
proof -
  have "title_ok = (\<lambda>line. line \<noteq> [] \<and> \<not> prefix ''='' line \<and> \<not> prefix ''#'' line \<and> 10 < length line)"
    by (simp add: fun_eq_iff title_ok_def startswith_def)
  then show ?thesis
    by (simp add: extract_title_def title_loop_filter take_map)
qed

text \<open>
  C7 as stated fails: on a draft that opens with ten empty lines the program returns the
  default title, where the first 10 non-empty lines hold a qualifying line.
\<close>

theorem extract_title_counterexample:
  "extract_title blank_led_draft = ''Research Report'' \<and>
   title_per_spec blank_led_draft = ''Quarterly Market Overview'' \<and>
   extract_title blank_led_draft \<noteq> title_per_spec blank_led_draft"
  by (simp add: extract_title_def title_per_spec_def blank_led_draft_def py_split.simps nl_def
        py_strip_def py_isspace_def title_ok_def startswith_def)

text \<open>
  C8. The title the finalizer extracts is a function of the draft text alone: two
  finalizer runs on states with the same draft, under any two environments, pass the same
  title to the archive, namely the title extracted from the draft.
\<close>

theorem title_depends_on_draft_only:
  "draft_report s1 = draft_report s2 \<Longrightarrow>
     arg_title (page_args e1 s1) = arg_title (page_args e2 s2) \<and>
     arg_title (page_args e1 s1) = extract_title (draft_report s1)"
  by (simp add: page_args_def)

theorem title_depends_on_draft_only_witness:
  "draft_report (demo_draft_state\<lparr>draft_report := titled_draft\<rparr>) =
     draft_report ((initial_state [])\<lparr>draft_report := titled_draft, iteration_count := 2\<rparr>) \<and>
   arg_title (page_args demo_env (demo_draft_state\<lparr>draft_report := titled_draft\<rparr>)) =
     arg_title (page_args (demo_env\<lparr>now := ''2031-01-01 00:00:00'', notion_import := Some ''ImportError''\<rparr>)
        ((initial_state [])\<lparr>draft_report := titled_draft, iteration_count := 2\<rparr>)) \<and>
   arg_title (page_args demo_env (demo_draft_state\<lparr>draft_report := titled_draft\<rparr>)) =
     ''Hiking Trails Near Denver''"
  using title_depends_on_draft_only
    [of "demo_draft_state\<lparr>draft_report := titled_draft\<rparr>"
        "(initial_state [])\<lparr>draft_report := titled_draft, iteration_count := 2\<rparr>"
        demo_env
        "demo_env\<lparr>now := ''2031-01-01 00:00:00'', notion_import := Some ''ImportError''\<rparr>"]
  by (simp add: page_args_def extract_title_def titled_draft_def py_split.simps nl_def
        py_strip_def py_isspace_def title_ok_def startswith_def)

section \<open>The bounded revision loop\<close>

lemma run_END: "run e END k s = Inr ([], k, s)"
  by (subst run.simps) simp

lemma run_Finalizer:
  "run e Finalizer k s =
     Inr ([Finalizer], k,
          s\<lparr>final_report := formatted_report e s, notion_page_url := notion_url e s\<rparr>)"
  by (subst run.simps) (simp add: finalizer_def run_END)

lemma run_Writer:
  "run e Writer k s =
     (case run e Critic (Suc k) (s\<lparr>draft_report := report_text e k s\<rparr>) of
        Inl err \<Rightarrow> Inl err
      | Inr (trace, r) \<Rightarrow> Inr (Writer # trace, r))"
  by (subst run.simps) (simp add: writer_agent_def)

lemma run_step:
  assumes "nd \<noteq> END" and "run e nd k s = Inr (trace, r)"
  shows "\<exists>nd' k' s' trace'. stage nd e k s = Inr (nd', k', s') \<and>
           run e nd' k' s' = Inr (trace', r) \<and> trace = nd # trace'"
  using assms by (subst (asm) run.simps) (auto split: sum.splits)

lemma critic_at_maximum:
  assumes "MAX_ITERATIONS \<le> iteration_count s" and "critic_agent e k s = Inr (nd', k', s')"
  shows "nd' = Finalizer \<and> s' = s"
  using assms
  by (auto simp: critic_agent_def Let_def split: sum.splits structured.splits if_splits)

lemma run_Critic_revise:
  assumes "always_revise e" and "iteration_count s < MAX_ITERATIONS"
  shows "\<exists>fb. run e Critic k s =
           (case run e Writer (Suc k)
                   (s\<lparr>critique_feedback := fb, iteration_count := iteration_count s + 1\<rparr>) of
              Inl err \<Rightarrow> Inl err
            | Inr (trace, r) \<Rightarrow> Inr (Critic # trace, r))"
proof -
  from assms(1) obtain c
    where c: "get_structured_response e k (critique_prompt s) CritiqueS = Inr c" "needs_revision c"
    unfolding always_revise_def by blast
  from critic_revises [OF c assms(2)] show ?thesis
    by (subst run.simps) auto
qed

lemma run_Critic_final:
  assumes "always_revise e" and "\<not> iteration_count s < MAX_ITERATIONS"
  shows "run e Critic k s =
           Inr ([Critic, Finalizer], Suc k,
                s\<lparr>final_report := formatted_report e s, notion_page_url := notion_url e s\<rparr>)"
proof -
  from assms(1) obtain c
    where c: "get_structured_response e k (critique_prompt s) CritiqueS = Inr c"
    unfolding always_revise_def by blast
  from critic_stops [OF c] assms(2)
  have "critic_agent e k s = Inr (Finalizer, Suc k, s)" by simp
  then show ?thesis
    by (subst run.simps) (simp add: run_Finalizer)
qed

lemma writer_rounds:
  assumes "always_revise e"
  shows "iteration_count s = 2 \<Longrightarrow>
           \<exists>k' s'. run e Writer k s = Inr ([Writer, Critic, Finalizer], k', s') \<and>
                   iteration_count s' = 2 \<and> final_report s' = formatted_report e
                     (s\<lparr>draft_report := report_text e k s\<rparr>)"
  by (simp add: run_Writer run_Critic_final [OF assms] MAX_ITERATIONS_def)

lemma writer_rounds1:
  assumes "always_revise e" and "iteration_count s = 1"
  shows "\<exists>k' s'. run e Writer k s = Inr ([Writer, Critic, Writer, Critic, Finalizer], k', s') \<and>
                 iteration_count s' = 2"
proof -
  let ?s1 = "s\<lparr>draft_report := report_text e k s\<rparr>"
  from run_Critic_revise [OF assms(1), of ?s1 "Suc k"] assms(2)
  obtain fb where fb: "run e Critic (Suc k) ?s1 =
      (case run e Writer (Suc (Suc k))
              (?s1\<lparr>critique_feedback := fb, iteration_count := iteration_count ?s1 + 1\<rparr>) of
         Inl err \<Rightarrow> Inl err
       | Inr (trace, r) \<Rightarrow> Inr (Critic # trace, r))"
    by (auto simp: MAX_ITERATIONS_def)
  let ?s2 = "?s1\<lparr>critique_feedback := fb, iteration_count := iteration_count ?s1 + 1\<rparr>"
  have "iteration_count ?s2 = 2" using assms(2) by simp
  from writer_rounds [OF assms(1) this, of "Suc (Suc k)"]
  obtain k' s' where "run e Writer (Suc (Suc k)) ?s2 = Inr ([Writer, Critic, Finalizer], k', s')"
    and "iteration_count s' = 2" by blast
  with fb show ?thesis by (simp add: run_Writer)
qed

lemma writer_rounds0:
  assumes "always_revise e" and "iteration_count s = 0"
  shows "\<exists>k' s'. run e Writer k s =
            Inr ([Writer, Critic, Writer, Critic, Writer, Critic, Finalizer], k', s') \<and>
            iteration_count s' = 2"
proof -
  let ?s1 = "s\<lparr>draft_report := report_text e k s\<rparr>"
  from run_Critic_revise [OF assms(1), of ?s1 "Suc k"] assms(2)
  obtain fb where fb: "run e Critic (Suc k) ?s1 =
      (case run e Writer (Suc (Suc k))
              (?s1\<lparr>critique_feedback := fb, iteration_count := iteration_count ?s1 + 1\<rparr>) of
         Inl err \<Rightarrow> Inl err
       | Inr (trace, r) \<Rightarrow> Inr (Critic # trace, r))"
    by (auto simp: MAX_ITERATIONS_def)
  let ?s2 = "?s1\<lparr>critique_feedback := fb, iteration_count := iteration_count ?s1 + 1\<rparr>"
  have "iteration_count ?s2 = 1" using assms(2) by simp
  from writer_rounds1 [OF assms(1) this, of "Suc (Suc k)"]
  obtain k' s' where "run e Writer (Suc (Suc k)) ?s2 =
      Inr ([Writer, Critic, Writer, Critic, Finalizer], k', s')"
    and "iteration_count s' = 2" by blast
  with fb show ?thesis by (simp add: run_Writer)
qed

lemma session_reaching_writer:
  assumes rev: "always_revise e" and inv: "invoke e msgs = Inr (trace, r)"
    and w: "Writer \<in> set trace"
  shows "trace = full_trace"
proof -
  let ?s0 = "initial_state msgs"
  from inv have r0: "run e Clarify 0 ?s0 = Inr (trace, r)" by (simp add: invoke_def)
  have "Clarify \<noteq> END" by simp
  from run_step [OF this r0] obtain n1 k1 s1 t1 where
    st0: "stage Clarify e 0 ?s0 = Inr (n1, k1, s1)" and r1: "run e n1 k1 s1 = Inr (t1, r)"
    and t0: "trace = Clarify # t1" by blast
  from st0 have n1: "n1 = END \<or> n1 = Planner"
    by (auto simp: clarify_with_user_def split: sum.splits structured.splits if_splits)
  have "n1 \<noteq> END"
  proof
    assume "n1 = END"
    with r1 have "t1 = []" by (simp add: run_END)
    with t0 w show False by simp
  qed
  with n1 have n1P: "n1 = Planner" by simp
  from stage_counter [OF st0] have c1: "iteration_count s1 = 0"
    by (simp add: initial_state_def)
  have "Planner \<noteq> END" by simp
  from run_step [OF this r1 [unfolded n1P]] obtain n2 k2 s2 t2 where
    st1: "stage Planner e k1 s1 = Inr (n2, k2, s2)" and r2: "run e n2 k2 s2 = Inr (t2, r)"
    and t1: "t1 = Planner # t2" by blast
  from st1 have n2: "n2 = Researcher"
    by (auto simp: planner_agent_def split: sum.splits structured.splits)
  from stage_counter [OF st1] c1 have c2: "iteration_count s2 = 0" by simp
  have "Researcher \<noteq> END" by simp
  from run_step [OF this r2 [unfolded n2]] obtain n3 k3 s3 t3 where
    st2: "stage Researcher e k2 s2 = Inr (n3, k3, s3)" and r3: "run e n3 k3 s3 = Inr (t3, r)"
    and t2: "t2 = Researcher # t3" by blast
  from st2 have n3: "n3 = Synthesis" by (auto simp: researcher_agent_def)
  from stage_counter [OF st2] c2 have c3: "iteration_count s3 = 0" by simp
  have "Synthesis \<noteq> END" by simp
  from run_step [OF this r3 [unfolded n3]] obtain n4 k4 s4 t4 where
    st3: "stage Synthesis e k3 s3 = Inr (n4, k4, s4)" and r4: "run e n4 k4 s4 = Inr (t4, r)"
    and t3: "t3 = Synthesis # t4" by blast
  from st3 have n4: "n4 = Writer"
    by (auto simp: synthesis_agent_def split: gen_result.splits sum.splits)
  from stage_counter [OF st3] c3 have c4: "iteration_count s4 = 0" by simp
  from writer_rounds0 [OF rev c4, of k4] r4 [unfolded n4]
  have "t4 = [Writer, Critic, Writer, Critic, Writer, Critic, Finalizer]" by auto
  with t0 t1 t2 t3 show ?thesis by (simp add: full_trace_def)
qed

text \<open>
  LangGraph ends a run that takes more steps than its recursion limit, 25 by default. No
  session gets there.
\<close>

lemma run_length:
  "run e nd k s = Inr (trace, r) \<Longrightarrow> length trace \<le> run_measure nd s"
proof (induction e nd k s arbitrary: trace r rule: run.induct)
  case (1 e nd k s)
  show ?case
  proof (cases "nd = END")
    case True
    with "1.prems" show ?thesis by (simp add: run_END)
  next
    case False
    from run_step [OF False "1.prems"] obtain nd' k' s' trace' where
      st: "stage nd e k s = Inr (nd', k', s')" and r: "run e nd' k' s' = Inr (trace', r)"
      and t: "trace = nd # trace'" by blast
    from "1.IH" [OF False st refl refl r] have "length trace' \<le> run_measure nd' s'" .
    with stage_descends [OF False st] t show ?thesis by simp
  qed
qed

lemma invoke_within_recursion_limit:
  "invoke e msgs = Inr (trace, r) \<Longrightarrow> length trace < 25"
proof -
  assume "invoke e msgs = Inr (trace, r)"
  then have "length trace \<le> run_measure Clarify (initial_state msgs)"
    unfolding invoke_def by (rule run_length)
  then show ?thesis
    by (simp add: run_measure_def initial_state_def MAX_ITERATIONS_def)
qed

text \<open>
  C2. A critic stage that runs with the revision counter at the maximum 2 goes to the
  finalizer and leaves the state as it is, whatever the critique says; it never goes
  back to the writer. Consequently, when every critique asks for a revision, the run from
  the first writer invocation (counter 0) returns, having run writer, critic, writer,
  critic, writer, critic, finalizer: the writer 3 times, the finalizer after the third
  critique, the counter at 2. A whole session that reaches the writer runs exactly the
  eleven nodes of \<open>full_trace\<close>, the writer 3 times.
\<close>

theorem forced_finalize_at_maximum:
  "(iteration_count s = 2 \<and> critic_agent e k s = Inr (nd', k', s') \<longrightarrow>
      nd' = Finalizer \<and> nd' \<noteq> Writer \<and> s' = s) \<and>
   (always_revise e \<and> iteration_count s0 = 0 \<longrightarrow>
      (\<exists>k1 s1. run e Writer k0 s0 =
                 Inr ([Writer, Critic, Writer, Critic, Writer, Critic, Finalizer], k1, s1) \<and>
               iteration_count s1 = 2)) \<and>
   (always_revise e \<and> invoke e msgs = Inr (trace, r) \<and> Writer \<in> set trace \<longrightarrow>
      trace = full_trace \<and> count_list trace Writer = 3)"
proof (intro conjI impI)
  assume a: "iteration_count s = 2 \<and> critic_agent e k s = Inr (nd', k', s')"
  then have "MAX_ITERATIONS \<le> iteration_count s" by (simp add: MAX_ITERATIONS_def)
  from critic_at_maximum [OF this, of e k nd' k' s'] a
  have "nd' = Finalizer \<and> s' = s" by simp
  then show "nd' = Finalizer" and "nd' \<noteq> Writer" and "s' = s"
    by simp_all
next
  assume "always_revise e \<and> iteration_count s0 = 0"
  then show "\<exists>k1 s1. run e Writer k0 s0 =
                 Inr ([Writer, Critic, Writer, Critic, Writer, Critic, Finalizer], k1, s1) \<and>
               iteration_count s1 = 2"
    using writer_rounds0 by blast
next
  assume a: "always_revise e \<and> invoke e msgs = Inr (trace, r) \<and> Writer \<in> set trace"
  then show "trace = full_trace" using session_reaching_writer by blast
  then show "count_list trace Writer = 3" by (simp add: full_trace_def)
qed

lemma demo_always_revise: "always_revise demo_env"
  by (simp add: always_revise_def get_structured_response_def parse_response_def
        extract_json_def py_in_def demo_env_def)

lemma demo_critic_at_maximum:
  "critic_agent demo_env 9 demo_revised_state = Inr (Finalizer, 10, demo_revised_state)"
  by (simp add: critic_agent_def get_structured_response_def parse_response_def
        extract_json_def py_in_def demo_env_def demo_revised_state_def demo_draft_state_def
        initial_state_def MAX_ITERATIONS_def)

lemma demo_invoke: "invoke demo_env demo_msgs = Inr (full_trace, 10, demo_final_state)"
  by (simp add: invoke_def run.simps clarify_with_user_def planner_agent_def
        researcher_agent_def synthesis_agent_def writer_agent_def critic_agent_def
        finalizer_def report_text_def get_structured_response_def parse_response_def
        extract_json_def py_in_def notion_url_def create_research_page_def
        demo_env_def demo_final_state_def demo_revised_state_def demo_draft_state_def
        initial_state_def MAX_ITERATIONS_def full_trace_def nl_def)

theorem forced_finalize_at_maximum_witness:
  "iteration_count demo_revised_state = 2 \<and>
   critic_agent demo_env 9 demo_revised_state = Inr (Finalizer, 10, demo_revised_state) \<and>
   always_revise demo_env \<and> iteration_count (initial_state demo_msgs) = 0 \<and>
   (\<exists>k1 s1. run demo_env Writer 0 (initial_state demo_msgs) =
              Inr ([Writer, Critic, Writer, Critic, Writer, Critic, Finalizer], k1, s1) \<and>
            iteration_count s1 = 2) \<and>
   invoke demo_env demo_msgs = Inr (full_trace, 10, demo_final_state) \<and>
   Writer \<in> set full_trace \<and> count_list full_trace Writer = 3"
proof -
  have c: "iteration_count demo_revised_state = 2"
    by (simp add: demo_revised_state_def)
  have i: "iteration_count (initial_state demo_msgs) = 0"
    by (simp add: initial_state_def)
  have w: "Writer \<in> set full_trace"
    by (simp add: full_trace_def)
  from forced_finalize_at_maximum
    [where s = demo_revised_state and e = demo_env and k = 9 and nd' = Finalizer and k' = 10
       and s' = demo_revised_state and ?s0.0 = "initial_state demo_msgs" and ?k0.0 = 0
       and msgs = demo_msgs and trace = full_trace and r = "(10, demo_final_state)"]
    c i w demo_critic_at_maximum demo_always_revise demo_invoke
  show ?thesis by simp
qed

section \<open>The source list\<close>

text \<open>
  Every order of the distinct elements is a set iteration of the model: it is the one of
  the ranking by position in that order.
\<close>

lemma nth_position: "x \<in> set ys \<Longrightarrow> ys ! position ys x = x"
  by (induction ys) (auto simp: position_def)

lemma position_snoc_old: "x \<in> set ys \<Longrightarrow> position (ys @ [y]) x = position ys x"
  by (auto simp: position_def takeWhile_append)

lemma position_snoc_new: "y \<notin> set ys \<Longrightarrow> position (ys @ [y]) y = length ys"
  by (auto simp: position_def takeWhile_append)

lemma map_position: "distinct ys \<Longrightarrow> map (position ys) ys = [0..<length ys]"
proof (induction ys rule: rev_induct)
  case Nil
  show ?case by simp
next
  case (snoc y ys)
  then have d: "distinct ys" and n: "y \<notin> set ys" by simp_all
  have "map (position (ys @ [y])) ys = map (position ys) ys"
    by (rule map_cong) (simp_all add: position_snoc_old)
  with snoc.IH [OF d] position_snoc_new [OF n] show ?case by simp
qed

lemma inj_on_position: "inj_on (position ys) (set ys)"
proof (rule inj_onI)
  fix a b assume a: "a \<in> set ys" and b: "b \<in> set ys" and eq: "position ys a = position ys b"
  have "a = ys ! position ys a" using a by (simp only: nth_position)
  also have "\<dots> = ys ! position ys b" by (simp only: eq)
  also have "\<dots> = b" using b by (simp only: nth_position)
  finally show "a = b" .
qed

lemma py_list_set_any_order:
  assumes "distinct ys" and "set ys = set xs"
  shows "py_list_set (position ys) xs = ys"
proof -
  define zs where "zs = sort_key (position ys) (remdups xs)"
  have szs: "set zs = set ys" using assms(2) by (simp add: zs_def)
  have dzs: "distinct zs" by (simp add: zs_def)
  have "zs = ys"
  proof (rule map_sorted_distinct_set_unique [where f = "position ys"])
    show "inj_on (position ys) (set zs \<union> set ys)" using inj_on_position [of ys] szs by simp
    show "sorted (map (position ys) zs)" unfolding zs_def by (rule sorted_sort_key)
    show "distinct (map (position ys) zs)"
      using inj_on_position [of ys] szs dzs by (simp add: distinct_map)
    show "sorted (map (position ys) ys)" by (simp add: map_position [OF assms(1)])
    show "distinct (map (position ys) ys)" by (simp add: map_position [OF assms(1)])
    show "set zs = set ys" by (rule szs)
  qed
  then show ?thesis by (simp add: py_list_set_def zs_def)
qed

lemma split_at_char:
  "split_at [d] s =
     (if d \<in> set s then Some (takeWhile (\<lambda>c. c \<noteq> d) s, tl (dropWhile (\<lambda>c. c \<noteq> d) s))
      else None)"
  by (induction s) auto

lemma takeWhile_absent: "d \<notin> set s \<Longrightarrow> takeWhile (\<lambda>c. c \<noteq> d) s = s"
  by (induction s) auto

lemma first_line_takeWhile: "first_line frag = takeWhile (\<lambda>c. c \<noteq> CHR 0x0A) frag"
  by (simp add: first_line_def nl_def py_split.simps [of "[CHR 0x0A]" frag] split_at_char
        takeWhile_absent)

lemma py_replace_absent:
  assumes "\<not> py_in old s"
  shows "py_replace old new s = s"
proof -
  from assms have "split_at old s = None"
    by (cases "split_at old s") (auto simp: py_in_def)
  then show ?thesis by (subst py_replace.simps) simp
qed

lemma split_at_prefix: "sep \<noteq> [] \<Longrightarrow> split_at sep (sep @ rest) = Some ([], rest)"
  by (cases sep) simp_all

lemma source_id_researcher_note:
  assumes "CHR 0x0A \<notin> set url" and "\<not> py_in ''Source: '' url"
  shows "source_id (''Source: '' @ url @ nl @ content) = url"
proof -
  have "takeWhile (\<lambda>c. c \<noteq> CHR 0x0A) ((''Source: '' @ url) @ nl @ content) = ''Source: '' @ url"
    using assms(1) by (subst takeWhile_append2) (auto simp: nl_def)
  then have "first_line (''Source: '' @ url @ nl @ content) = ''Source: '' @ url"
    by (simp add: first_line_takeWhile)
  moreover have "py_replace ''Source: '' [] (''Source: '' @ url) = url"
    using py_replace_absent [OF assms(2)]
    by (subst py_replace.simps) (simp add: split_at_prefix [of "''Source: ''" url, simplified])
  ultimately show ?thesis by (simp add: source_id_def)
qed

lemma set_sources:
  "set (sources e s) =
     (\<lambda>note. py_replace ''Source: '' [] (takeWhile (\<lambda>c. c \<noteq> CHR 0x0A) note)) `
       {note \<in> set (raw_notes s). prefix ''Source:'' note}"
  by (auto simp: sources_def py_list_set_def tagged_ids_def startswith_def source_id_def
        first_line_takeWhile)

text \<open>
  C3. For every list of raw notes the finalizer's sources are pairwise different and are
  exactly the identifiers of the fragments that start with \<open>Source:\<close>: the first line of
  the fragment with every occurrence of \<open>Source: \<close> removed. The report lists the first 25
  of them, so the rendered list has at most 25 entries and no two equal ones, and the
  final report is the header, one numbered line per listed source, and the footer. For a
  fragment as the research stage writes it, the tag, a URL without line break and without
  the tag, a line break and the content, the identifier is the URL.
\<close>

theorem finalizer_sources:
  "distinct (sources e s) \<and>
   set (sources e s) =
     (\<lambda>note. py_replace ''Source: '' [] (takeWhile (\<lambda>c. c \<noteq> CHR 0x0A) note)) `
       {note \<in> set (raw_notes s). prefix ''Source:'' note} \<and>
   listed_sources e s = take 25 (sources e s) \<and>
   length (listed_sources e s) \<le> 25 \<and>
   distinct (listed_sources e s) \<and>
   (\<exists>s'. finalizer e k s = Inr (END, k, s') \<and>
         final_report s' =
           report_header (draft_report s) @ source_lines 1 (listed_sources e s) @
           report_footer e s) \<and>
   (CHR 0x0A \<notin> set url \<and> \<not> py_in ''Source: '' url \<longrightarrow>
      source_id (''Source: '' @ url @ nl @ content) = url)"
proof (intro conjI)
  show d: "distinct (sources e s)" by (simp add: sources_def py_list_set_def)
  show "set (sources e s) =
     (\<lambda>note. py_replace ''Source: '' [] (takeWhile (\<lambda>c. c \<noteq> CHR 0x0A) note)) `
       {note \<in> set (raw_notes s). prefix ''Source:'' note}"
    by (rule set_sources)
  show "listed_sources e s = take 25 (sources e s)" by (simp add: listed_sources_def)
  show "length (listed_sources e s) \<le> 25" by (simp add: listed_sources_def)
  show "distinct (listed_sources e s)" using d by (simp add: listed_sources_def)
  show "\<exists>s'. finalizer e k s = Inr (END, k, s') \<and>
         final_report s' =
           report_header (draft_report s) @ source_lines 1 (listed_sources e s) @
           report_footer e s"
    by (simp add: finalizer_def formatted_report_def)
  show "CHR 0x0A \<notin> set url \<and> \<not> py_in ''Source: '' url \<longrightarrow>
      source_id (''Source: '' @ url @ nl @ content) = url"
    using source_id_researcher_note by blast
qed

lemma demo_listed_sources:
  "listed_sources demo_env demo_draft_state = [''https://trails.example/bear'']"
  by (simp add: listed_sources_def sources_def tagged_ids_def source_id_def first_line_def
        py_split.simps py_replace.simps py_list_set_def startswith_def nl_def
        demo_draft_state_def initial_state_def)

theorem finalizer_sources_witness:
  "CHR 0x0A \<notin> set ''https://trails.example/bear'' \<and>
   \<not> py_in ''Source: '' ''https://trails.example/bear'' \<and>
   source_id (''Source: '' @ ''https://trails.example/bear'' @ nl @ ''Bear Peak is steep.'') =
     ''https://trails.example/bear'' \<and>
   length (listed_sources demo_env demo_draft_state) \<le> 25 \<and>
   distinct (listed_sources demo_env demo_draft_state) \<and>
   listed_sources demo_env demo_draft_state = [''https://trails.example/bear'']"
  using finalizer_sources [of demo_env demo_draft_state 0 "''https://trails.example/bear''"
      "''Bear Peak is steep.''"]
    demo_listed_sources
  by (simp add: py_in_def)

section \<open>Malformed structured responses\<close>

text \<open>
  C4. When the text-generation service returns a response that does not parse into the
  requested schema (its text cannot be read, the fenced block cannot be cut out, or
  \<open>json.loads\<close> or the validation fails), \<open>get_structured_response\<close> returns the default of
  the schema instead of raising: for \<open>ClarifyWithUser\<close>, need_clarification true with the
  question \<open>Could you provide more details?\<close>; for \<open>Critique\<close>, needs_revision false with
  no issues and no improvements; for the brief, the prompt itself; for the plan, one
  generic query and topic.
\<close>

theorem malformed_response_default:
  assumes "generate_content e k (full_prompt prompt sc) = Response text"
    and "parse_response e sc text = None"
  shows "get_structured_response e k prompt sc =
           Inr (case sc of
                  ClarifyWithUserS \<Rightarrow> ClarifyWithUser True ''Could you provide more details?'' []
                | ResearchQuestionS \<Rightarrow> ResearchQuestion prompt []
                | ResearchPlanS \<Rightarrow> ResearchPlan [''general search''] [''main topic''] []
                | CritiqueS \<Rightarrow> Critique False [] [] [])"
  using assms by (cases sc) (simp_all add: get_structured_response_def)

theorem malformed_response_default_witness:
  "generate_content garbled_env 0 (full_prompt ''Is this clear?'' ClarifyWithUserS) =
     Response (Inr ''Sorry, here is some prose instead.'') \<and>
   parse_response garbled_env ClarifyWithUserS (Inr ''Sorry, here is some prose instead.'') = None \<and>
   get_structured_response garbled_env 0 ''Is this clear?'' ClarifyWithUserS =
     Inr (ClarifyWithUser True ''Could you provide more details?'' []) \<and>
   generate_content garbled_env 5 (full_prompt ''Review it.'' CritiqueS) =
     Response (Inr ''Sorry, here is some prose instead.'') \<and>
   parse_response garbled_env CritiqueS (Inr ''Sorry, here is some prose instead.'') = None \<and>
   get_structured_response garbled_env 5 ''Review it.'' CritiqueS = Inr (Critique False [] [] [])"
proof -
  have g: "generate_content garbled_env k p = Response (Inr ''Sorry, here is some prose instead.'')"
    for k p by (simp add: garbled_env_def demo_env_def)
  have p1: "parse_response garbled_env ClarifyWithUserS (Inr ''Sorry, here is some prose instead.'') = None"
    by (simp add: parse_response_def extract_json_def py_in_def garbled_env_def demo_env_def)
  have p2: "parse_response garbled_env CritiqueS (Inr ''Sorry, here is some prose instead.'') = None"
    by (simp add: parse_response_def extract_json_def py_in_def garbled_env_def demo_env_def)
  from malformed_response_default [OF g p1, of 0 "''Is this clear?''"]
    malformed_response_default [OF g p2, of 5 "''Review it.''"] g p1 p2
  show ?thesis by simp
qed

section \<open>Collaborator errors\<close>

text \<open>
  C5 does not hold of the program. The writer wraps its call of \<open>generate_content\<close> in a
  \<open>try\<close>; the synthesis stage and \<open>get_structured_response\<close> do not, so an exception of
  the text-generation service leaves the stage and the workflow: the caller of \<open>invoke\<close>
  gets the exception, neither a final report nor a clarifying question.
\<close>

theorem collaborator_error_propagates:
  "invoke outage_env demo_msgs = Inl ''503 Service Unavailable'' \<and>
   synthesis_agent outage_env 3 demo_synth_state = Inl ''503 Service Unavailable'' \<and>
   invoke no_service_env demo_msgs = Inl ''429 Quota exceeded'' \<and>
   get_structured_response no_service_env 0 (clarify_prompt (initial_state demo_msgs))
     ClarifyWithUserS = Inl ''429 Quota exceeded''"
  by (simp add: invoke_def run.simps clarify_with_user_def planner_agent_def
        researcher_agent_def synthesis_agent_def get_structured_response_def
        parse_response_def extract_json_def py_in_def outage_env_def no_service_env_def
        demo_env_def initial_state_def)

section \<open>Archive failure\<close>

lemma formatted_report_env:
  "now e' = now e \<Longrightarrow> set_rank e' = set_rank e \<Longrightarrow> formatted_report e' s = formatted_report e s"
  by (simp add: formatted_report_def listed_sources_def sources_def report_footer_def)

text \<open>
  C6. When the archive fails, because the import of the archive module raises or because
  \<open>create_research_page\<close> returns a failure (as it does whenever the page service
  raises), the finalizer still ends the session with the formatted report as the final
  report and the empty string as the archive reference. The final report is the same
  whatever the archive does: two environments that agree on the clock and on the set
  order give the same final report.
\<close>

theorem finalizer_archive_failure:
  "(notion_import e \<noteq> None \<or> (\<exists>err. create_research_page e (page_args e s) = PageFailed err) \<longrightarrow>
      finalizer e k s =
        Inr (END, k, s\<lparr>final_report := formatted_report e s, notion_page_url := []\<rparr>)) \<and>
   (notion_create e args = Inl err \<longrightarrow> create_research_page e args = PageFailed err) \<and>
   (now e' = now e \<and> set_rank e' = set_rank e \<longrightarrow>
      (\<exists>s1 s2. finalizer e k s = Inr (END, k, s1) \<and> finalizer e' k s = Inr (END, k, s2) \<and>
               final_report s1 = final_report s2 \<and> final_report s1 = formatted_report e s))"
proof (intro conjI impI)
  assume "notion_import e \<noteq> None \<or> (\<exists>err. create_research_page e (page_args e s) = PageFailed err)"
  then have "notion_url e s = []"
    by (auto simp: notion_url_def split: option.splits)
  then show "finalizer e k s =
        Inr (END, k, s\<lparr>final_report := formatted_report e s, notion_page_url := []\<rparr>)"
    by (simp add: finalizer_def)
next
  assume "notion_create e args = Inl err"
  then show "create_research_page e args = PageFailed err"
    by (simp add: create_research_page_def)
next
  assume "now e' = now e \<and> set_rank e' = set_rank e"
  then have "formatted_report e' s = formatted_report e s"
    by (intro formatted_report_env) simp_all
  then show "\<exists>s1 s2. finalizer e k s = Inr (END, k, s1) \<and> finalizer e' k s = Inr (END, k, s2) \<and>
               final_report s1 = final_report s2 \<and> final_report s1 = formatted_report e s"
    by (simp add: finalizer_def)
qed

lemma demo_archive_fails:
  "create_research_page demo_env (page_args demo_env demo_revised_state) = PageFailed ''unauthorized''"
  by (simp add: create_research_page_def demo_env_def)

lemma archiving_succeeds:
  "notion_url archiving_env demo_revised_state = ''https://notion.example/p1''"
  by (simp add: notion_url_def create_research_page_def archiving_env_def demo_env_def)

theorem finalizer_archive_failure_witness:
  "create_research_page demo_env (page_args demo_env demo_revised_state) = PageFailed ''unauthorized'' \<and>
   finalizer demo_env 10 demo_revised_state = Inr (END, 10, demo_final_state) \<and>
   notion_page_url demo_final_state = [] \<and>
   notion_create demo_env (page_args demo_env demo_revised_state) = Inl ''unauthorized'' \<and>
   now archiving_env = now demo_env \<and> set_rank archiving_env = set_rank demo_env \<and>
   finalizer archiving_env 10 demo_revised_state =
     Inr (END, 10, demo_final_state\<lparr>notion_page_url := ''https://notion.example/p1''\<rparr>) \<and>
   final_report (demo_final_state\<lparr>notion_page_url := ''https://notion.example/p1''\<rparr>) =
     final_report demo_final_state"
proof -
  have n: "now archiving_env = now demo_env" and r: "set_rank archiving_env = set_rank demo_env"
    by (simp_all add: archiving_env_def)
  have c: "notion_create demo_env (page_args demo_env demo_revised_state) = Inl ''unauthorized''"
    by (simp add: demo_env_def)
  from finalizer_archive_failure
    [where e = demo_env and s = demo_revised_state and k = 10 and e' = archiving_env
       and args = "page_args demo_env demo_revised_state" and err = "''unauthorized''"]
    demo_archive_fails archiving_succeeds n r c formatted_report_env [OF n r, of demo_revised_state]
  show ?thesis
    by (simp add: demo_final_state_def finalizer_def)
qed

section \<open>No raw notes\<close>

text \<open>
  C9. With an empty list of raw notes the finalizer completes: the source list is empty
  and the final report is the header directly followed by the footer, a non-empty text.
\<close>

theorem finalizer_without_notes:
  assumes "raw_notes s = []"
  shows "sources e s = [] \<and> listed_sources e s = [] \<and>
         (\<exists>s'. finalizer e k s = Inr (END, k, s') \<and>
               final_report s' = report_header (draft_report s) @ report_footer e s \<and>
               final_report s' \<noteq> [])"
  using assms
  by (simp add: finalizer_def formatted_report_def listed_sources_def sources_def
        tagged_ids_def py_list_set_def report_header_def nl_def)

theorem finalizer_without_notes_witness:
  "raw_notes ((initial_state demo_msgs)\<lparr>draft_report := titled_draft\<rparr>) = [] \<and>
   listed_sources demo_env ((initial_state demo_msgs)\<lparr>draft_report := titled_draft\<rparr>) = [] \<and>
   (\<exists>s'. finalizer demo_env 6 ((initial_state demo_msgs)\<lparr>draft_report := titled_draft\<rparr>) =
           Inr (END, 6, s') \<and>
         final_report s' =
           report_header titled_draft @
           report_footer demo_env ((initial_state demo_msgs)\<lparr>draft_report := titled_draft\<rparr>) \<and>
         final_report s' \<noteq> [])"
proof -
  have h: "raw_notes ((initial_state demo_msgs)\<lparr>draft_report := titled_draft\<rparr>) = []"
    by (simp add: initial_state_def)
  from finalizer_without_notes [OF h, of demo_env 6] h show ?thesis by simp
qed

section \<open>Writer fallback\<close>

text \<open>
  C10. When report generation raises in the writer (the call itself or the read of the
  response's text), the writer sets the draft to the non-empty fallback text, the error
  message followed by the synthesized notes, and goes to the critic. In every case the
  writer returns, goes to the critic and changes nothing but the draft.
\<close>

theorem writer_fallback:
  "(generate_content e k (report_prompt s) = Raises err \<or>
    generate_content e k (report_prompt s) = Response (Inl err) \<longrightarrow>
      writer_agent e k s =
        Inr (Critic, Suc k,
             s\<lparr>draft_report :=
                 ''Error generating report: '' @ err @ nl @ nl @ ''Raw Notes:'' @ nl @
                 py_join nl (notes' s)\<rparr>) \<and>
      ''Error generating report: '' @ err @ nl @ nl @ ''Raw Notes:'' @ nl @
        py_join nl (notes' s) \<noteq> []) \<and>
   (\<exists>draft. writer_agent e k s = Inr (Critic, Suc k, s\<lparr>draft_report := draft\<rparr>))"
  by (auto simp: writer_agent_def report_text_def error_report_def)

theorem writer_fallback_witness:
  "generate_content writer_outage_env 4 (report_prompt demo_synth_state) =
     Raises ''503 Service Unavailable'' \<and>
   writer_agent writer_outage_env 4 demo_synth_state =
     Inr (Critic, 5,
          demo_synth_state
            \<lparr>draft_report :=
                ''Error generating report: 503 Service Unavailable\<newline>\<newline>Raw Notes:\<newline>{}''\<rparr>)"
proof -
  have g: "generate_content writer_outage_env 4 (report_prompt demo_synth_state) =
     Raises ''503 Service Unavailable''"
    by (simp add: writer_outage_env_def demo_env_def)
  from writer_fallback [of writer_outage_env 4 demo_synth_state "''503 Service Unavailable''"] g
  show ?thesis
    by (simp add: demo_synth_state_def demo_draft_state_def initial_state_def nl_def)
qed

end
